theory Spec2Isabelle
  imports Complex_Main
begin

section \<open>Data model\<close>

text \<open>
  The canvas editor exists in two variants: the full one (react-rnd blocks, four content
  types, a table backend) and the reduced one (web-designer/src/App.tsx, icon and text only).
  Both keep their state in React hooks.  The model passes the state explicitly: every handler
  is a function from the state (and the values the environment supplies: the event, the
  container's bounding box, the identifier returned by \<open>uuidv4()\<close>, the string returned by
  \<open>prompt()\<close>, the result of a file read or of the HTTP request) to the next state.
  A handler that reads \<open>blocks\<close> or \<open>selectedId\<close> from its closure is taken to belong to the
  latest render, so what it reads is the current state; the one value that is captured
  across a suspension, the \<open>selectedId\<close> of \<open>sendTablePrompt\<close>, is a parameter of its
  continuation.

  JavaScript numbers are modelled as \<open>real\<close> (no rounding, no NaN); the payload field
  \<open>data: any\<close> as a JSON value.  Record fields carry a prefix (\<open>b_\<close> for Block, \<open>c_\<close> for its
  content, \<open>p_\<close> for a point) because \<open>id\<close>, \<open>x\<close> and \<open>y\<close> would otherwise shadow the identity
  function and common variables; the hooks of the reduced variant carry the suffix \<open>_r\<close>
  where they share a name with the full variant's.
\<close>

datatype json =
    JNull
  | JBool bool
  | JNum real
  | JStr string
  | JArr "json list"
  | JObj "(string \<times> json) list"

datatype content_type = Icon | Text | Image | Table

record content =
  c_type :: content_type
  c_data :: json

record block =
  b_id :: string
  b_x :: real
  b_y :: real
  b_width :: real
  b_height :: real
  b_content :: "content option"

record point =
  p_x :: real
  p_y :: real

text \<open>What the handlers read of a mouse event and of the container's bounding box.\<close>

record dom_target =
  closest_rnd_block :: bool
  tagName :: string

record mouse_event =
  clientX :: real
  clientY :: real
  target :: dom_target

record dom_rect =
  rect_left :: real
  rect_top :: real

section \<open>The full variant\<close>

text \<open>
  The hooks of the component, and \<open>alerts\<close>: the messages shown by \<open>alert()\<close> so far, the
  only notification channel of the program.
\<close>

record app_state =
  blocks :: "block list"
  selectedId :: "string option"
  showModal :: bool
  promptText :: string
  isSelecting :: bool
  startPoint :: "point option"
  selectionPreview :: "block option"
  alerts :: "string list"

definition initial_state :: app_state where
  "initial_state =
     \<lparr>blocks = [], selectedId = None, showModal = False, promptText = [],
      isSelecting = False, startPoint = None, selectionPreview = None, alerts = []\<rparr>"

definition getRelativeCoordinates :: "dom_rect \<Rightarrow> mouse_event \<Rightarrow> point" where
  "getRelativeCoordinates rect e =
     \<lparr>p_x = clientX e - rect_left rect, p_y = clientY e - rect_top rect\<rparr>"

subsection \<open>Block actions\<close>

definition createDefaultBlock :: "string \<Rightarrow> app_state \<Rightarrow> app_state" where
  "createDefaultBlock uuid s =
     (let newBlock = \<lparr>b_id = uuid, b_x = 100, b_y = 100, b_width = 200, b_height = 150,
                       b_content = None\<rparr>
      in s\<lparr>blocks := blocks s @ [newBlock], selectedId := Some (b_id newBlock)\<rparr>)"

definition deleteBlock :: "string \<Rightarrow> app_state \<Rightarrow> app_state" where
  "deleteBlock i s =
     s\<lparr>blocks := filter (\<lambda>b. b_id b \<noteq> i) (blocks s), selectedId := None\<rparr>"

definition duplicateBlock :: "string \<Rightarrow> block \<Rightarrow> app_state \<Rightarrow> app_state" where
  "duplicateBlock uuid blk s =
     (let newBlock = blk\<lparr>b_id := uuid, b_x := b_x blk + 20, b_y := b_y blk + 20\<rparr>
      in s\<lparr>blocks := blocks s @ [newBlock], selectedId := Some (b_id newBlock)\<rparr>)"

subsection \<open>Content actions\<close>

text \<open>The bytes of the icon literal as they stand in the source file of each variant.\<close>

definition icon_glyph :: string where
  "icon_glyph = [CHR 0xC3, CHR 0xA2, CHR 0xC2, CHR 0xAD]"

definition icon_glyph_r :: string where
  "icon_glyph_r = [CHR 0xE2, CHR 0xAD, CHR 0x90]"

text \<open>
  All content actions share one shape: \<open>prev.map((b) => (b.id === id ? {...b, content: c} : b))\<close>.
\<close>

definition set_content :: "string \<Rightarrow> content \<Rightarrow> block list \<Rightarrow> block list" where
  "set_content i c prev = map (\<lambda>b. if b_id b = i then b\<lparr>b_content := Some c\<rparr> else b) prev"

definition addIcon :: "string \<Rightarrow> app_state \<Rightarrow> app_state" where
  "addIcon i s =
     s\<lparr>blocks := set_content i \<lparr>c_type = Icon, c_data = JStr icon_glyph\<rparr> (blocks s)\<rparr>"

text \<open>
  \<open>prompt()\<close> returns \<open>null\<close> when cancelled (\<open>None\<close>) or the string typed; \<open>!text\<close> holds
  for \<open>null\<close> and for the empty string.
\<close>

definition addText :: "string \<Rightarrow> string option \<Rightarrow> app_state \<Rightarrow> app_state" where
  "addText i t s =
     (case t of
        None \<Rightarrow> s
      | Some str \<Rightarrow>
          if str = [] then s
          else s\<lparr>blocks := set_content i \<lparr>c_type = Text, c_data = JStr str\<rparr> (blocks s)\<rparr>)"

text \<open>
  \<open>addImage\<close> only starts the read: the state changes when \<open>reader.onload\<close> runs, with the
  identifier captured by the closure and \<open>reader.result\<close>.
\<close>

definition addImage :: "string \<Rightarrow> app_state \<Rightarrow> app_state" where
  "addImage i s = s"

definition addImage_onload :: "string \<Rightarrow> json \<Rightarrow> app_state \<Rightarrow> app_state" where
  "addImage_onload i result s =
     s\<lparr>blocks := set_content i \<lparr>c_type = Image, c_data = result\<rparr> (blocks s)\<rparr>"

text \<open>
  \<open>sendTablePrompt\<close> suspends at \<open>await axios.post(...)\<close>.  Its continuation runs with the
  \<open>selectedId\<close> of the render that started the request and with the outcome of the request:
  \<open>Inl\<close> a rejection (the \<open>catch\<close> branch), \<open>Inr\<close> the response's \<open>data\<close>.
\<close>

definition sendTablePrompt_resume ::
  "string option \<Rightarrow> string + json \<Rightarrow> app_state \<Rightarrow> app_state" where
  "sendTablePrompt_resume sel res s =
     (case res of
        Inr d \<Rightarrow>
          s\<lparr>blocks := map (\<lambda>b. if Some (b_id b) = sel
                                then b\<lparr>b_content := Some \<lparr>c_type = Table, c_data = d\<rparr>\<rparr>
                                else b) (blocks s),
            showModal := False, promptText := []\<rparr>
      | Inl err \<Rightarrow> s\<lparr>alerts := alerts s @ [''Backend error generating table'']\<rparr>)"

subsection \<open>Mouse events\<close>

definition handleMouseDown :: "dom_rect \<Rightarrow> mouse_event \<Rightarrow> app_state \<Rightarrow> app_state" where
  "handleMouseDown rect e s =
     (if closest_rnd_block (target e) \<or> tagName (target e) = ''BUTTON''
         \<or> tagName (target e) = ''INPUT''
      then s
      else s\<lparr>isSelecting := True, startPoint := Some (getRelativeCoordinates rect e),
             selectedId := None\<rparr>)"

definition handleMouseMove :: "dom_rect \<Rightarrow> mouse_event \<Rightarrow> app_state \<Rightarrow> app_state" where
  "handleMouseMove rect e s =
     (if \<not> isSelecting s then s
      else case startPoint s of
        None \<Rightarrow> s
      | Some sp \<Rightarrow>
          (let p = getRelativeCoordinates rect e
           in s\<lparr>selectionPreview :=
                  Some \<lparr>b_id = ''temp'', b_x = min (p_x sp) (p_x p), b_y = min (p_y sp) (p_y p),
                        b_width = \<bar>p_x p - p_x sp\<bar>, b_height = \<bar>p_y p - p_y sp\<bar>,
                        b_content = None\<rparr>\<rparr>))"

definition handleMouseUp :: "string \<Rightarrow> app_state \<Rightarrow> app_state" where
  "handleMouseUp uuid s =
     (let s' = (case selectionPreview s of
                  None \<Rightarrow> s
                | Some pv \<Rightarrow>
                    if b_width pv > 20 \<and> b_height pv > 20
                    then (let newBlock = pv\<lparr>b_id := uuid\<rparr>
                          in s\<lparr>blocks := blocks s @ [newBlock], selectedId := Some (b_id newBlock)\<rparr>)
                    else s)
      in s'\<lparr>isSelecting := False, startPoint := None, selectionPreview := None\<rparr>)"

subsection \<open>Handlers attached to a rendered block and to the dialog\<close>

definition onDragStop :: "string \<Rightarrow> point \<Rightarrow> app_state \<Rightarrow> app_state" where
  "onDragStop i d s =
     s\<lparr>blocks := map (\<lambda>b. if b_id b = i then b\<lparr>b_x := p_x d, b_y := p_y d\<rparr> else b) (blocks s)\<rparr>"

definition onResizeStop :: "string \<Rightarrow> real \<Rightarrow> real \<Rightarrow> point \<Rightarrow> app_state \<Rightarrow> app_state" where
  "onResizeStop i w h pos s =
     s\<lparr>blocks := map (\<lambda>b. if b_id b = i
                           then b\<lparr>b_width := w, b_height := h, b_x := p_x pos, b_y := p_y pos\<rparr>
                           else b) (blocks s)\<rparr>"

definition onClick :: "string \<Rightarrow> app_state \<Rightarrow> app_state" where
  "onClick i s = s\<lparr>selectedId := Some i\<rparr>"


section \<open>The reduced variant\<close>

text \<open>
  web-designer/src/App.tsx: the same block type (its content is only ever an icon or a
  text), five hooks, no dialog, no notification of any kind.
\<close>

record lite_state =
  blocks_r :: "block list"
  selectedBlockId :: "string option"
  isSelecting_r :: bool
  startPoint_r :: "point option"
  selection :: "block option"

definition initial_state_r :: lite_state where
  "initial_state_r =
     \<lparr>blocks_r = [], selectedBlockId = None, isSelecting_r = False, startPoint_r = None,
      selection = None\<rparr>"

definition handleMouseDown_r :: "dom_rect \<Rightarrow> mouse_event \<Rightarrow> lite_state \<Rightarrow> lite_state" where
  "handleMouseDown_r rect e s =
     s\<lparr>isSelecting_r := True, startPoint_r := Some (getRelativeCoordinates rect e),
       selection := None, selectedBlockId := None\<rparr>"

definition handleMouseMove_r :: "dom_rect \<Rightarrow> mouse_event \<Rightarrow> lite_state \<Rightarrow> lite_state" where
  "handleMouseMove_r rect e s =
     (if \<not> isSelecting_r s then s
      else case startPoint_r s of
        None \<Rightarrow> s
      | Some sp \<Rightarrow>
          (let p = getRelativeCoordinates rect e
           in s\<lparr>selection :=
                  Some \<lparr>b_id = ''temp'', b_x = min (p_x sp) (p_x p), b_y = min (p_y sp) (p_y p),
                        b_width = \<bar>p_x p - p_x sp\<bar>, b_height = \<bar>p_y p - p_y sp\<bar>,
                        b_content = None\<rparr>\<rparr>))"

definition handleMouseUp_r :: "string \<Rightarrow> lite_state \<Rightarrow> lite_state" where
  "handleMouseUp_r uuid s =
     (let s' = (case selection s of
                  None \<Rightarrow> s
                | Some sel \<Rightarrow>
                    if b_width sel > 20 \<and> b_height sel > 20
                    then s\<lparr>blocks_r := blocks_r s @ [sel\<lparr>b_id := uuid\<rparr>]\<rparr>
                    else s)
      in s'\<lparr>isSelecting_r := False, selection := None\<rparr>)"

definition addIconToBlock :: "string \<Rightarrow> lite_state \<Rightarrow> lite_state" where
  "addIconToBlock i s =
     s\<lparr>blocks_r := set_content i \<lparr>c_type = Icon, c_data = JStr icon_glyph_r\<rparr> (blocks_r s)\<rparr>"

definition addTextToBlock :: "string \<Rightarrow> string option \<Rightarrow> lite_state \<Rightarrow> lite_state" where
  "addTextToBlock i t s =
     (case t of
        None \<Rightarrow> s
      | Some str \<Rightarrow>
          if str = [] then s
          else s\<lparr>blocks_r := set_content i \<lparr>c_type = Text, c_data = JStr str\<rparr> (blocks_r s)\<rparr>)"

definition onClick_r :: "string \<Rightarrow> lite_state \<Rightarrow> lite_state" where
  "onClick_r i s = s\<lparr>selectedBlockId := Some i\<rparr>"

definition selectedBlock_r :: "lite_state \<Rightarrow> block option" where
  "selectedBlock_r s = find (\<lambda>b. Some (b_id b) = selectedBlockId s) (blocks_r s)"

section \<open>Events and reachable states\<close>

text \<open>
  Everything that can change the state of the full variant, with the values the environment
  supplies.  The two asynchronous completions are events of their own: they may arrive after
  any number of other events, carrying the identifier captured when they were started.
\<close>

datatype event =
    CreateDefaultBlock string
  | DeleteBlock string
  | DuplicateBlock string block
  | AddIcon string
  | AddText string "string option"
  | AddImage string
  | ImageLoaded string json
  | TableResponse "string option" "string + json"
  | MouseDown dom_rect mouse_event
  | MouseMove dom_rect mouse_event
  | MouseUp string
  | DragStop string point
  | ResizeStop string real real point
  | Click string
  | SetShowModal bool
  | SetPromptText string

fun fire :: "event \<Rightarrow> app_state \<Rightarrow> app_state" where
  "fire (CreateDefaultBlock u) s = createDefaultBlock u s"
| "fire (DeleteBlock i) s = deleteBlock i s"
| "fire (DuplicateBlock u b) s = duplicateBlock u b s"
| "fire (AddIcon i) s = addIcon i s"
| "fire (AddText i t) s = addText i t s"
| "fire (AddImage i) s = addImage i s"
| "fire (ImageLoaded i r) s = addImage_onload i r s"
| "fire (TableResponse sel r) s = sendTablePrompt_resume sel r s"
| "fire (MouseDown rect e) s = handleMouseDown rect e s"
| "fire (MouseMove rect e) s = handleMouseMove rect e s"
| "fire (MouseUp u) s = handleMouseUp u s"
| "fire (DragStop i d) s = onDragStop i d s"
| "fire (ResizeStop i w h pos) s = onResizeStop i w h pos s"
| "fire (Click i) s = onClick i s"
| "fire (SetShowModal v) s = s\<lparr>showModal := v\<rparr>"
| "fire (SetPromptText v) s = s\<lparr>promptText := v\<rparr>"

definition ids :: "block list \<Rightarrow> string list" where
  "ids bs = map b_id bs"

text \<open>
  What the environment guarantees: \<open>uuidv4()\<close> returns an identifier that no block of the
  registry carries, and a click handler exists only on a block that is rendered, that is,
  one of the registry.  Every other event may carry any value.
\<close>

fun env_ok :: "event \<Rightarrow> app_state \<Rightarrow> bool" where
  "env_ok (CreateDefaultBlock u) s = (u \<notin> set (ids (blocks s)))"
| "env_ok (DuplicateBlock u b) s = (u \<notin> set (ids (blocks s)))"
| "env_ok (MouseUp u) s = (u \<notin> set (ids (blocks s)))"
| "env_ok (Click i) s = (i \<in> set (ids (blocks s)))"
| "env_ok _ s = True"

inductive reachable :: "app_state \<Rightarrow> bool" where
  reachable_init: "reachable initial_state"
| reachable_step: "reachable s \<Longrightarrow> env_ok e s \<Longrightarrow> reachable (fire e s)"

text \<open>The same for the reduced variant.\<close>

datatype event_r =
    MouseDown_r dom_rect mouse_event
  | MouseMove_r dom_rect mouse_event
  | MouseUp_r string
  | Click_r string
  | AddIconToBlock string
  | AddTextToBlock string "string option"

fun fire_r :: "event_r \<Rightarrow> lite_state \<Rightarrow> lite_state" where
  "fire_r (MouseDown_r rect e) s = handleMouseDown_r rect e s"
| "fire_r (MouseMove_r rect e) s = handleMouseMove_r rect e s"
| "fire_r (MouseUp_r u) s = handleMouseUp_r u s"
| "fire_r (Click_r i) s = onClick_r i s"
| "fire_r (AddIconToBlock i) s = addIconToBlock i s"
| "fire_r (AddTextToBlock i t) s = addTextToBlock i t s"

fun env_ok_r :: "event_r \<Rightarrow> lite_state \<Rightarrow> bool" where
  "env_ok_r (MouseUp_r u) s = (u \<notin> set (ids (blocks_r s)))"
| "env_ok_r (Click_r i) s = (i \<in> set (ids (blocks_r s)))"
| "env_ok_r _ s = True"

inductive reachable_r :: "lite_state \<Rightarrow> bool" where
  reachable_r_init: "reachable_r initial_state_r"
| reachable_r_step: "reachable_r s \<Longrightarrow> env_ok_r e s \<Longrightarrow> reachable_r (fire_r e s)"

section \<open>The selection invariant, as the specification words it\<close>

text \<open>
  \<open>selection_ok\<close>: the selected identifier is null or that of a block of the registry, and at
  most one block is selected.  \<open>ids_distinct\<close>: no two blocks share an identifier.
\<close>

definition selected_blocks :: "string option \<Rightarrow> block list \<Rightarrow> block list" where
  "selected_blocks sel bs = filter (\<lambda>b. Some (b_id b) = sel) bs"

definition selection_ok :: "string option \<Rightarrow> block list \<Rightarrow> bool" where
  "selection_ok sel bs =
     ((case sel of None \<Rightarrow> True | Some i \<Rightarrow> i \<in> set (ids bs))
      \<and> length (selected_blocks sel bs) \<le> 1)"

definition ids_distinct :: "block list \<Rightarrow> bool" where
  "ids_distinct bs = distinct (ids bs)"

text \<open>The membership half of the invariant, used in the preservation proofs.\<close>

definition sel_in :: "string option \<Rightarrow> block list \<Rightarrow> bool" where
  "sel_in sel bs = (case sel of None \<Rightarrow> True | Some i \<Rightarrow> i \<in> set (ids bs))"

text \<open>Concrete inputs for the examples: a container at the viewport's origin, and a
  pointer event at a viewport position whose target is the bare surface.\<close>

definition origin :: dom_rect where
  "origin = \<lparr>rect_left = 0, rect_top = 0\<rparr>"

definition surface :: dom_target where
  "surface = \<lparr>closest_rnd_block = False, tagName = ''DIV''\<rparr>"

definition button :: dom_target where
  "button = \<lparr>closest_rnd_block = False, tagName = ''BUTTON''\<rparr>"

definition pointer_at :: "real \<Rightarrow> real \<Rightarrow> dom_target \<Rightarrow> mouse_event" where
  "pointer_at cx cy tg = \<lparr>clientX = cx, clientY = cy, target = tg\<rparr>"

section \<open>Properties of the handlers\<close>

subsection \<open>Identifiers under content updates\<close>

lemma ids_set_content: "ids (set_content i c bs) = ids bs"
  by (induction bs) (simp_all add: set_content_def ids_def)

lemma set_content_absent: "i \<notin> set (ids bs) \<Longrightarrow> set_content i c bs = bs"
  by (induction bs) (auto simp add: set_content_def ids_def)

subsection \<open>Failure of the table request\<close>

text \<open>
  C4. When the table request fails at the transport level (the promise of \<open>axios.post\<close>
  rejects), the continuation of \<open>sendTablePrompt\<close> shows one alert and changes nothing else:
  the registry, and with it the content of every block, is exactly what it was, as are the
  selection, the dialog and the prompt text.
\<close>

theorem sendTablePrompt_failure:
  "sendTablePrompt_resume sel (Inl err) s
     = s\<lparr>alerts := alerts s @ [''Backend error generating table'']\<rparr>
   \<and> blocks (sendTablePrompt_resume sel (Inl err) s) = blocks s
   \<and> map b_content (blocks (sendTablePrompt_resume sel (Inl err) s)) = map b_content (blocks s)
   \<and> alerts (sendTablePrompt_resume sel (Inl err) s)
       = alerts s @ [''Backend error generating table'']
   \<and> selectedId (sendTablePrompt_resume sel (Inl err) s) = selectedId s
   \<and> showModal (sendTablePrompt_resume sel (Inl err) s) = showModal s
   \<and> promptText (sendTablePrompt_resume sel (Inl err) s) = promptText s"
  by (simp add: sendTablePrompt_resume_def)

subsection \<open>Deleting a block\<close>

lemma filter_out_unique_id:
  assumes "distinct (map f xs)" and "a \<in> set (map f xs)"
  shows "\<exists>pre b post. xs = pre @ b # post \<and> f b = a \<and> filter (\<lambda>v. f v \<noteq> a) xs = pre @ post"
proof -
  from assms(2) obtain b where b: "b \<in> set xs" "f b = a" by auto
  from b(1) obtain pre post where xs: "xs = pre @ b # post" by (auto dest: split_list)
  from assms(1) xs b(2) have "a \<notin> f ` set pre" and "a \<notin> f ` set post" by auto
  then have "filter (\<lambda>v. f v \<noteq> a) pre = pre" and "filter (\<lambda>v. f v \<noteq> a) post = post"
    by (auto simp add: filter_id_conv)
  with xs b(2) have "filter (\<lambda>v. f v \<noteq> a) xs = pre @ post" by simp
  with xs b(2) show ?thesis by blast
qed

text \<open>
  C1 (as amended). \<open>deleteBlock\<close> keeps, in their order, exactly the blocks whose identifier
  differs from the one given, so that identifier is gone from the registry; when identifiers
  are unique and the identifier is present, exactly one block leaves the list and every
  other block stays in place.  The selection becomes null in every case, whether or not the
  deleted block was the selected one.
\<close>

theorem deleteBlock_removes_and_clears:
  "blocks (deleteBlock i s) = filter (\<lambda>b. b_id b \<noteq> i) (blocks s)
   \<and> i \<notin> set (ids (blocks (deleteBlock i s)))
   \<and> (ids_distinct (blocks s) \<and> i \<in> set (ids (blocks s)) \<longrightarrow>
        (\<exists>pre b post. blocks s = pre @ b # post \<and> b_id b = i
                        \<and> blocks (deleteBlock i s) = pre @ post))
   \<and> selectedId (deleteBlock i s) = None"
proof -
  have gone: "i \<notin> set (ids (blocks (deleteBlock i s)))"
    by (auto simp add: deleteBlock_def ids_def)
  have one: "\<exists>pre b post. blocks s = pre @ b # post \<and> b_id b = i
                        \<and> blocks (deleteBlock i s) = pre @ post"
    if "ids_distinct (blocks s)" and "i \<in> set (ids (blocks s))"
    using filter_out_unique_id [of b_id "blocks s" i] that
    by (simp add: deleteBlock_def ids_def ids_distinct_def)
  from gone one show ?thesis by (simp add: deleteBlock_def)
qed

text \<open>
  Witness: two blocks, the first one selected and deleted.
\<close>

theorem deleteBlock_removes_and_clears_witness:
  "blocks (deleteBlock ''a'' (fire (Click ''a'') (fire (CreateDefaultBlock ''b'')
       (fire (CreateDefaultBlock ''a'') initial_state))))
     = [\<lparr>b_id = ''b'', b_x = 100, b_y = 100, b_width = 200, b_height = 150, b_content = None\<rparr>]
   \<and> selectedId (deleteBlock ''a'' (fire (Click ''a'') (fire (CreateDefaultBlock ''b'')
       (fire (CreateDefaultBlock ''a'') initial_state)))) = None"
  using deleteBlock_removes_and_clears [of "''a''" "fire (Click ''a'') (fire (CreateDefaultBlock ''b'')
       (fire (CreateDefaultBlock ''a'') initial_state))"]
  by (simp add: initial_state_def createDefaultBlock_def onClick_def)

text \<open>
  Counterexample to C1 as stated: with blocks \<open>a\<close> and \<open>b\<close> in the registry and \<open>a\<close> selected,
  deleting \<open>b\<close> (present, not selected) does not leave the selection unchanged.
\<close>

theorem deleteBlock_unselected_counterexample:
  "''b'' \<in> set (ids (blocks (fire (Click ''a'') (fire (CreateDefaultBlock ''b'')
       (fire (CreateDefaultBlock ''a'') initial_state)))))
   \<and> selectedId (fire (Click ''a'') (fire (CreateDefaultBlock ''b'')
       (fire (CreateDefaultBlock ''a'') initial_state))) = Some ''a''
   \<and> selectedId (deleteBlock ''b'' (fire (Click ''a'') (fire (CreateDefaultBlock ''b'')
       (fire (CreateDefaultBlock ''a'') initial_state))))
       \<noteq> selectedId (fire (Click ''a'') (fire (CreateDefaultBlock ''b'')
       (fire (CreateDefaultBlock ''a'') initial_state)))"
  by (simp add: initial_state_def createDefaultBlock_def onClick_def deleteBlock_def ids_def)

subsection \<open>Committing a draw gesture\<close>

text \<open>Outside a gesture the full variant holds no preview, in every reachable state.\<close>

lemma fire_idle_no_preview:
  assumes "\<not> isSelecting s \<longrightarrow> selectionPreview s = None"
  shows "\<not> isSelecting (fire e s) \<longrightarrow> selectionPreview (fire e s) = None"
proof (cases e)
  case (MouseDown rect ev)
  with assms show ?thesis by (simp add: handleMouseDown_def)
next
  case (MouseMove rect ev)
  with assms show ?thesis by (simp add: handleMouseMove_def Let_def split: option.split)
next
  case (MouseUp u)
  then show ?thesis by (simp add: handleMouseUp_def Let_def split: option.split)
next
  case (TableResponse sel r)
  with assms show ?thesis by (simp add: sendTablePrompt_resume_def split: sum.split)
next
  case (AddText i t)
  with assms show ?thesis by (simp add: addText_def split: option.split)
qed (use assms in \<open>simp_all add: createDefaultBlock_def deleteBlock_def duplicateBlock_def
      addIcon_def addImage_def addImage_onload_def onDragStop_def onResizeStop_def onClick_def\<close>)

lemma reachable_idle_no_preview:
  "reachable s \<Longrightarrow> \<not> isSelecting s \<longrightarrow> selectionPreview s = None"
proof (induction rule: reachable.induct)
  case reachable_init
  show ?case by (simp add: initial_state_def)
next
  case (reachable_step s e)
  then show ?case using fire_idle_no_preview [of s e] by blast
qed

text \<open>
  What pointer-up does.  Full variant: a preview whose width and height both exceed 20 is
  appended to the end of the registry under the new identifier, with the preview's position,
  size and content, and becomes the selected block; with any other preview, or none,
  registry and selection are unchanged; in both cases \<open>isSelecting\<close>, \<open>startPoint\<close> and
  \<open>selectionPreview\<close> are cleared and nothing else changes.  A pointer-down directly followed
  by a pointer-up creates no block when the state holds no preview, as every reachable state
  outside a gesture does.
  Reduced variant: the same test appends the same block, the selection is left as it was,
  and only \<open>isSelecting\<close> and the preview are cleared.  A pointer-down directly followed by a
  pointer-up creates no block.
\<close>

lemma handleMouseUp_commit:
  "(\<forall>pv. selectionPreview s = Some pv \<and> b_width pv > 20 \<and> b_height pv > 20 \<longrightarrow>
       blocks (handleMouseUp u s) = blocks s @ [pv\<lparr>b_id := u\<rparr>]
       \<and> selectedId (handleMouseUp u s) = Some u)
   \<and> (\<forall>pv. selectionPreview s = Some pv \<and> \<not> (b_width pv > 20 \<and> b_height pv > 20) \<longrightarrow>
       blocks (handleMouseUp u s) = blocks s \<and> selectedId (handleMouseUp u s) = selectedId s)
   \<and> (selectionPreview s = None \<longrightarrow>
       blocks (handleMouseUp u s) = blocks s \<and> selectedId (handleMouseUp u s) = selectedId s)
   \<and> isSelecting (handleMouseUp u s) = False
   \<and> startPoint (handleMouseUp u s) = None
   \<and> selectionPreview (handleMouseUp u s) = None
   \<and> showModal (handleMouseUp u s) = showModal s
   \<and> promptText (handleMouseUp u s) = promptText s
   \<and> alerts (handleMouseUp u s) = alerts s
   \<and> (selectionPreview s = None \<longrightarrow>
       blocks (handleMouseUp u (handleMouseDown rect e s)) = blocks s)
   \<and> (reachable s \<and> \<not> isSelecting s \<longrightarrow>
       blocks (handleMouseUp u (handleMouseDown rect e s)) = blocks s)
   \<and> (\<forall>sel. selection r = Some sel \<and> b_width sel > 20 \<and> b_height sel > 20 \<longrightarrow>
       blocks_r (handleMouseUp_r u r) = blocks_r r @ [sel\<lparr>b_id := u\<rparr>])
   \<and> (\<forall>sel. selection r = Some sel \<and> \<not> (b_width sel > 20 \<and> b_height sel > 20) \<longrightarrow>
       blocks_r (handleMouseUp_r u r) = blocks_r r)
   \<and> (selection r = None \<longrightarrow> blocks_r (handleMouseUp_r u r) = blocks_r r)
   \<and> selectedBlockId (handleMouseUp_r u r) = selectedBlockId r
   \<and> isSelecting_r (handleMouseUp_r u r) = False
   \<and> selection (handleMouseUp_r u r) = None
   \<and> startPoint_r (handleMouseUp_r u r) = startPoint_r r
   \<and> blocks_r (handleMouseUp_r u (handleMouseDown_r rect e r)) = blocks_r r"
proof -
  have full: "handleMouseUp u s =
      (case selectionPreview s of
         None \<Rightarrow> s\<lparr>isSelecting := False, startPoint := None, selectionPreview := None\<rparr>
       | Some pv \<Rightarrow>
           if b_width pv > 20 \<and> b_height pv > 20
           then s\<lparr>blocks := blocks s @ [pv\<lparr>b_id := u\<rparr>], selectedId := Some u,
                  isSelecting := False, startPoint := None, selectionPreview := None\<rparr>
           else s\<lparr>isSelecting := False, startPoint := None, selectionPreview := None\<rparr>)"
    by (simp add: handleMouseUp_def Let_def split: option.split)
  have down: "selectionPreview (handleMouseDown rect e s) = selectionPreview s"
    and down_blocks: "blocks (handleMouseDown rect e s) = blocks s"
    by (simp_all add: handleMouseDown_def)
  have click: "blocks (handleMouseUp u (handleMouseDown rect e s)) = blocks s"
    if "selectionPreview s = None"
    using that down down_blocks by (simp add: handleMouseUp_def)
  have lite: "handleMouseUp_r u r =
      (case selection r of
         None \<Rightarrow> r\<lparr>isSelecting_r := False, selection := None\<rparr>
       | Some sel \<Rightarrow>
           if b_width sel > 20 \<and> b_height sel > 20
           then r\<lparr>blocks_r := blocks_r r @ [sel\<lparr>b_id := u\<rparr>],
                  isSelecting_r := False, selection := None\<rparr>
           else r\<lparr>isSelecting_r := False, selection := None\<rparr>)"
    by (simp add: handleMouseUp_r_def Let_def split: option.split)
  have click_r: "blocks_r (handleMouseUp_r u (handleMouseDown_r rect e r)) = blocks_r r"
    by (simp add: handleMouseUp_r_def handleMouseDown_r_def)
  have a: "\<forall>pv. selectionPreview s = Some pv \<and> b_width pv > 20 \<and> b_height pv > 20 \<longrightarrow>
       blocks (handleMouseUp u s) = blocks s @ [pv\<lparr>b_id := u\<rparr>]
       \<and> selectedId (handleMouseUp u s) = Some u"
    by (simp add: full)
  have b: "\<forall>pv. selectionPreview s = Some pv \<and> \<not> (b_width pv > 20 \<and> b_height pv > 20) \<longrightarrow>
       blocks (handleMouseUp u s) = blocks s \<and> selectedId (handleMouseUp u s) = selectedId s"
    by (auto simp add: full)
  have c: "selectionPreview s = None \<longrightarrow>
       blocks (handleMouseUp u s) = blocks s \<and> selectedId (handleMouseUp u s) = selectedId s"
    by (simp add: full)
  have d: "isSelecting (handleMouseUp u s) = False" "startPoint (handleMouseUp u s) = None"
    "selectionPreview (handleMouseUp u s) = None" "showModal (handleMouseUp u s) = showModal s"
    "promptText (handleMouseUp u s) = promptText s" "alerts (handleMouseUp u s) = alerts s"
    by (simp_all add: full split: option.split)
  have a': "\<forall>sel. selection r = Some sel \<and> b_width sel > 20 \<and> b_height sel > 20 \<longrightarrow>
       blocks_r (handleMouseUp_r u r) = blocks_r r @ [sel\<lparr>b_id := u\<rparr>]"
    by (simp add: lite)
  have b': "\<forall>sel. selection r = Some sel \<and> \<not> (b_width sel > 20 \<and> b_height sel > 20) \<longrightarrow>
       blocks_r (handleMouseUp_r u r) = blocks_r r"
    by (auto simp add: lite)
  have c': "selection r = None \<longrightarrow> blocks_r (handleMouseUp_r u r) = blocks_r r"
    by (simp add: lite)
  have d': "selectedBlockId (handleMouseUp_r u r) = selectedBlockId r"
    "isSelecting_r (handleMouseUp_r u r) = False" "selection (handleMouseUp_r u r) = None"
    "startPoint_r (handleMouseUp_r u r) = startPoint_r r"
    by (simp_all add: lite split: option.split)
  have idle: "blocks (handleMouseUp u (handleMouseDown rect e s)) = blocks s"
    if "reachable s" and "\<not> isSelecting s"
    using that click reachable_idle_no_preview [of s] by simp
  from a b c d click idle a' b' c' d' click_r show ?thesis by blast
qed

text \<open>
  Examples: a gesture from (0,0) to (21,21) is committed (and selected in the full variant);
  a gesture from (0,0) to (20,21) is discarded; a press and release in the initial state
  create nothing.
\<close>

lemma handleMouseUp_commit_example:
  "blocks (handleMouseUp ''u1'' (fire (MouseMove origin (pointer_at 21 21 surface))
        (fire (MouseDown origin (pointer_at 0 0 surface)) initial_state)))
     = [\<lparr>b_id = ''u1'', b_x = 0, b_y = 0, b_width = 21, b_height = 21, b_content = None\<rparr>]
   \<and> selectedId (handleMouseUp ''u1'' (fire (MouseMove origin (pointer_at 21 21 surface))
        (fire (MouseDown origin (pointer_at 0 0 surface)) initial_state))) = Some ''u1''
   \<and> blocks (handleMouseUp ''u1'' (fire (MouseMove origin (pointer_at 20 21 surface))
        (fire (MouseDown origin (pointer_at 0 0 surface)) initial_state))) = []
   \<and> selectedId (handleMouseUp ''u1'' (fire (MouseMove origin (pointer_at 20 21 surface))
        (fire (MouseDown origin (pointer_at 0 0 surface)) initial_state))) = None
   \<and> blocks_r (handleMouseUp_r ''u1'' (fire_r (MouseMove_r origin (pointer_at 21 21 surface))
        (fire_r (MouseDown_r origin (pointer_at 0 0 surface)) initial_state_r)))
     = [\<lparr>b_id = ''u1'', b_x = 0, b_y = 0, b_width = 21, b_height = 21, b_content = None\<rparr>]
   \<and> blocks_r (handleMouseUp_r ''u1'' (fire_r (MouseMove_r origin (pointer_at 20 21 surface))
        (fire_r (MouseDown_r origin (pointer_at 0 0 surface)) initial_state_r))) = []
   \<and> selectionPreview initial_state = None
   \<and> blocks (handleMouseUp ''u1'' (handleMouseDown origin (pointer_at 0 0 surface) initial_state))
     = []"
  using handleMouseUp_commit
    [where s = initial_state and u = "''u1''" and rect = origin
       and e = "pointer_at 0 0 surface" and r = initial_state_r]
    handleMouseUp_commit
    [where s = "fire (MouseMove origin (pointer_at 21 21 surface))
                  (fire (MouseDown origin (pointer_at 0 0 surface)) initial_state)"
       and u = "''u1''"
       and r = "fire_r (MouseMove_r origin (pointer_at 21 21 surface))
                  (fire_r (MouseDown_r origin (pointer_at 0 0 surface)) initial_state_r)"]
    handleMouseUp_commit
    [where s = "fire (MouseMove origin (pointer_at 20 21 surface))
                  (fire (MouseDown origin (pointer_at 0 0 surface)) initial_state)"
       and u = "''u1''"
       and r = "fire_r (MouseMove_r origin (pointer_at 20 21 surface))
                  (fire_r (MouseDown_r origin (pointer_at 0 0 surface)) initial_state_r)"]
  by (simp add: initial_state_def initial_state_r_def origin_def surface_def pointer_at_def
      handleMouseDown_def handleMouseMove_def handleMouseDown_r_def handleMouseMove_r_def
      handleMouseUp_def handleMouseUp_r_def getRelativeCoordinates_def)

text \<open>
  C2. The claim holds of neither variant in full.
  Reduced variant: with the gesture from (0,0) to (21,21) in progress and its 21 by 21
  preview set, pointer-up appends the block under the new identifier \<open>u1\<close>, but the block is
  not the selected block (the selection stays null) and the anchor of the gesture is not
  cleared; the full variant's \<open>handleMouseUp\<close> does both.
  Full variant: after a press at (0,0) and a move to (100,100), with no release, the state is
  reachable and holds a 100 by 100 preview; a press at (5,5) directly followed by a release,
  a click without drag, then appends that stale preview as a block, because
  \<open>handleMouseDown\<close> does not reset \<open>selectionPreview\<close>.  The reduced variant's
  \<open>handleMouseDown\<close> resets it, and the same sequence creates nothing there.
\<close>

theorem handleMouseUp_divergence:
  "isSelecting_r (fire_r (MouseMove_r origin (pointer_at 21 21 surface))
        (fire_r (MouseDown_r origin (pointer_at 0 0 surface)) initial_state_r))
   \<and> selection (fire_r (MouseMove_r origin (pointer_at 21 21 surface))
        (fire_r (MouseDown_r origin (pointer_at 0 0 surface)) initial_state_r))
     = Some \<lparr>b_id = ''temp'', b_x = 0, b_y = 0, b_width = 21, b_height = 21, b_content = None\<rparr>
   \<and> blocks_r (handleMouseUp_r ''u1'' (fire_r (MouseMove_r origin (pointer_at 21 21 surface))
        (fire_r (MouseDown_r origin (pointer_at 0 0 surface)) initial_state_r)))
     = [\<lparr>b_id = ''u1'', b_x = 0, b_y = 0, b_width = 21, b_height = 21, b_content = None\<rparr>]
   \<and> selectedBlockId (handleMouseUp_r ''u1'' (fire_r (MouseMove_r origin (pointer_at 21 21 surface))
        (fire_r (MouseDown_r origin (pointer_at 0 0 surface)) initial_state_r))) = None
   \<and> startPoint_r (handleMouseUp_r ''u1'' (fire_r (MouseMove_r origin (pointer_at 21 21 surface))
        (fire_r (MouseDown_r origin (pointer_at 0 0 surface)) initial_state_r)))
     = Some \<lparr>p_x = 0, p_y = 0\<rparr>
   \<and> selectedId (handleMouseUp ''u1'' (fire (MouseMove origin (pointer_at 21 21 surface))
        (fire (MouseDown origin (pointer_at 0 0 surface)) initial_state))) = Some ''u1''
   \<and> startPoint (handleMouseUp ''u1'' (fire (MouseMove origin (pointer_at 21 21 surface))
        (fire (MouseDown origin (pointer_at 0 0 surface)) initial_state))) = None
   \<and> reachable (fire (MouseMove origin (pointer_at 100 100 surface))
        (fire (MouseDown origin (pointer_at 0 0 surface)) initial_state))
   \<and> blocks (fire (MouseMove origin (pointer_at 100 100 surface))
        (fire (MouseDown origin (pointer_at 0 0 surface)) initial_state)) = []
   \<and> selectionPreview (fire (MouseMove origin (pointer_at 100 100 surface))
        (fire (MouseDown origin (pointer_at 0 0 surface)) initial_state))
     = Some \<lparr>b_id = ''temp'', b_x = 0, b_y = 0, b_width = 100, b_height = 100,
             b_content = None\<rparr>
   \<and> blocks (handleMouseUp ''u1'' (handleMouseDown origin (pointer_at 5 5 surface)
        (fire (MouseMove origin (pointer_at 100 100 surface))
        (fire (MouseDown origin (pointer_at 0 0 surface)) initial_state))))
     = [\<lparr>b_id = ''u1'', b_x = 0, b_y = 0, b_width = 100, b_height = 100, b_content = None\<rparr>]
   \<and> blocks_r (handleMouseUp_r ''u1'' (handleMouseDown_r origin (pointer_at 5 5 surface)
        (fire_r (MouseMove_r origin (pointer_at 100 100 surface))
        (fire_r (MouseDown_r origin (pointer_at 0 0 surface)) initial_state_r)))) = []"
proof -
  have e1: "env_ok (MouseDown origin (pointer_at 0 0 surface)) initial_state"
    and e2: "env_ok (MouseMove origin (pointer_at 100 100 surface))
               (fire (MouseDown origin (pointer_at 0 0 surface)) initial_state)"
    by simp_all
  have pending: "reachable (fire (MouseMove origin (pointer_at 100 100 surface))
        (fire (MouseDown origin (pointer_at 0 0 surface)) initial_state))"
    by (rule reachable_step [OF reachable_step [OF reachable_init e1] e2])
  have rest: "isSelecting_r (fire_r (MouseMove_r origin (pointer_at 21 21 surface))
        (fire_r (MouseDown_r origin (pointer_at 0 0 surface)) initial_state_r))
   \<and> selection (fire_r (MouseMove_r origin (pointer_at 21 21 surface))
        (fire_r (MouseDown_r origin (pointer_at 0 0 surface)) initial_state_r))
     = Some \<lparr>b_id = ''temp'', b_x = 0, b_y = 0, b_width = 21, b_height = 21, b_content = None\<rparr>
   \<and> blocks_r (handleMouseUp_r ''u1'' (fire_r (MouseMove_r origin (pointer_at 21 21 surface))
        (fire_r (MouseDown_r origin (pointer_at 0 0 surface)) initial_state_r)))
     = [\<lparr>b_id = ''u1'', b_x = 0, b_y = 0, b_width = 21, b_height = 21, b_content = None\<rparr>]
   \<and> selectedBlockId (handleMouseUp_r ''u1'' (fire_r (MouseMove_r origin (pointer_at 21 21 surface))
        (fire_r (MouseDown_r origin (pointer_at 0 0 surface)) initial_state_r))) = None
   \<and> startPoint_r (handleMouseUp_r ''u1'' (fire_r (MouseMove_r origin (pointer_at 21 21 surface))
        (fire_r (MouseDown_r origin (pointer_at 0 0 surface)) initial_state_r)))
     = Some \<lparr>p_x = 0, p_y = 0\<rparr>
   \<and> selectedId (handleMouseUp ''u1'' (fire (MouseMove origin (pointer_at 21 21 surface))
        (fire (MouseDown origin (pointer_at 0 0 surface)) initial_state))) = Some ''u1''
   \<and> startPoint (handleMouseUp ''u1'' (fire (MouseMove origin (pointer_at 21 21 surface))
        (fire (MouseDown origin (pointer_at 0 0 surface)) initial_state))) = None
   \<and> blocks (fire (MouseMove origin (pointer_at 100 100 surface))
        (fire (MouseDown origin (pointer_at 0 0 surface)) initial_state)) = []
   \<and> selectionPreview (fire (MouseMove origin (pointer_at 100 100 surface))
        (fire (MouseDown origin (pointer_at 0 0 surface)) initial_state))
     = Some \<lparr>b_id = ''temp'', b_x = 0, b_y = 0, b_width = 100, b_height = 100,
             b_content = None\<rparr>
   \<and> blocks (handleMouseUp ''u1'' (handleMouseDown origin (pointer_at 5 5 surface)
        (fire (MouseMove origin (pointer_at 100 100 surface))
        (fire (MouseDown origin (pointer_at 0 0 surface)) initial_state))))
     = [\<lparr>b_id = ''u1'', b_x = 0, b_y = 0, b_width = 100, b_height = 100, b_content = None\<rparr>]
   \<and> blocks_r (handleMouseUp_r ''u1'' (handleMouseDown_r origin (pointer_at 5 5 surface)
        (fire_r (MouseMove_r origin (pointer_at 100 100 surface))
        (fire_r (MouseDown_r origin (pointer_at 0 0 surface)) initial_state_r)))) = []"
    by (simp add: initial_state_def initial_state_r_def origin_def surface_def pointer_at_def
        handleMouseDown_def handleMouseMove_def handleMouseUp_def
        handleMouseDown_r_def handleMouseMove_r_def handleMouseUp_r_def
        getRelativeCoordinates_def)
  from pending rest show ?thesis by blast
qed

subsection \<open>Pointer-down on blocks and controls\<close>

text \<open>
  The guard of the full variant's \<open>handleMouseDown\<close>: a pointer-down inside a rendered block
  or on a BUTTON or INPUT element returns without any state change; any other pointer-down
  starts a gesture, records the anchor in surface coordinates and clears the selection.
\<close>

lemma handleMouseDown_guard:
  "(closest_rnd_block (target e) \<or> tagName (target e) = ''BUTTON''
      \<or> tagName (target e) = ''INPUT'' \<longrightarrow> handleMouseDown rect e s = s)
   \<and> (\<not> (closest_rnd_block (target e) \<or> tagName (target e) = ''BUTTON''
          \<or> tagName (target e) = ''INPUT'') \<longrightarrow>
        handleMouseDown rect e s
          = s\<lparr>isSelecting := True,
              startPoint := Some \<lparr>p_x = clientX e - rect_left rect, p_y = clientY e - rect_top rect\<rparr>,
              selectedId := None\<rparr>)"
  by (simp add: handleMouseDown_def getRelativeCoordinates_def)

text \<open>
  C3. The claim holds of the full variant (\<open>handleMouseDown_guard\<close>) and fails in the reduced
  variant, whose \<open>handleMouseDown\<close> has no guard.  There, with block \<open>u1\<close> drawn and selected
  and no gesture in progress, a pointer-down on a toolbar button starts a draw gesture,
  records an anchor and clears the selection.
\<close>

theorem handleMouseDown_r_on_button:
  "selectedBlockId (fire_r (Click_r ''u1'') (fire_r (MouseUp_r ''u1'')
        (fire_r (MouseMove_r origin (pointer_at 21 21 surface))
        (fire_r (MouseDown_r origin (pointer_at 0 0 surface)) initial_state_r)))) = Some ''u1''
   \<and> isSelecting_r (fire_r (Click_r ''u1'') (fire_r (MouseUp_r ''u1'')
        (fire_r (MouseMove_r origin (pointer_at 21 21 surface))
        (fire_r (MouseDown_r origin (pointer_at 0 0 surface)) initial_state_r)))) = False
   \<and> tagName (target (pointer_at 5 5 button)) = ''BUTTON''
   \<and> isSelecting_r (handleMouseDown_r origin (pointer_at 5 5 button)
        (fire_r (Click_r ''u1'') (fire_r (MouseUp_r ''u1'')
        (fire_r (MouseMove_r origin (pointer_at 21 21 surface))
        (fire_r (MouseDown_r origin (pointer_at 0 0 surface)) initial_state_r))))) = True
   \<and> startPoint_r (handleMouseDown_r origin (pointer_at 5 5 button)
        (fire_r (Click_r ''u1'') (fire_r (MouseUp_r ''u1'')
        (fire_r (MouseMove_r origin (pointer_at 21 21 surface))
        (fire_r (MouseDown_r origin (pointer_at 0 0 surface)) initial_state_r)))))
       = Some \<lparr>p_x = 5, p_y = 5\<rparr>
   \<and> selectedBlockId (handleMouseDown_r origin (pointer_at 5 5 button)
        (fire_r (Click_r ''u1'') (fire_r (MouseUp_r ''u1'')
        (fire_r (MouseMove_r origin (pointer_at 21 21 surface))
        (fire_r (MouseDown_r origin (pointer_at 0 0 surface)) initial_state_r))))) = None"
  by (simp add: initial_state_r_def origin_def surface_def button_def pointer_at_def
      handleMouseDown_r_def handleMouseMove_r_def handleMouseUp_r_def onClick_r_def
      getRelativeCoordinates_def)

subsection \<open>Late completion of an image read\<close>

lemma set_content_nth:
  "k < length bs \<Longrightarrow>
     set_content i c bs ! k = (if b_id (bs ! k) = i then (bs ! k)\<lparr>b_content := Some c\<rparr> else bs ! k)"
  by (simp add: set_content_def)

lemma set_content_filter:
  "set_content i c (filter (\<lambda>b. b_id b \<noteq> j) bs) = filter (\<lambda>b. b_id b \<noteq> j) (set_content i c bs)"
  by (induction bs) (simp_all add: set_content_def)

text \<open>
  C5. The completion of an image read (\<open>reader.onload\<close>) whose captured identifier is carried
  by no block of the registry returns the state it was given: nothing is changed, no alert
  is shown, and the function has no failing branch.  In particular a read that is started,
  followed by the deletion of its block, completes without any effect.  When the identifier
  is present the update goes to the blocks that carry it, wherever they stand in the list:
  position by position the block is replaced only if its identifier matches, and a deletion
  of another block before or after the completion gives the same registry.
\<close>

theorem addImage_onload_stale:
  "(i \<notin> set (ids (blocks s)) \<longrightarrow> addImage_onload i r s = s)
   \<and> addImage_onload i r (deleteBlock i (addImage i s)) = deleteBlock i s
   \<and> length (blocks (addImage_onload i r s)) = length (blocks s)
   \<and> (\<forall>k < length (blocks s).
        blocks (addImage_onload i r s) ! k
          = (if b_id (blocks s ! k) = i
             then (blocks s ! k)\<lparr>b_content := Some \<lparr>c_type = Image, c_data = r\<rparr>\<rparr>
             else blocks s ! k))
   \<and> blocks (addImage_onload i r (deleteBlock j s)) = blocks (deleteBlock j (addImage_onload i r s))"
proof -
  have stale: "addImage_onload i r s = s" if "i \<notin> set (ids (blocks s))"
    using that by (simp add: addImage_onload_def set_content_absent)
  have "i \<notin> set (ids (blocks (deleteBlock i s)))"
    by (auto simp add: deleteBlock_def ids_def)
  then have late: "addImage_onload i r (deleteBlock i (addImage i s)) = deleteBlock i s"
    by (simp add: addImage_onload_def addImage_def set_content_absent)
  have len: "length (blocks (addImage_onload i r s)) = length (blocks s)"
    by (simp add: addImage_onload_def set_content_def)
  have nth: "\<forall>k < length (blocks s).
        blocks (addImage_onload i r s) ! k
          = (if b_id (blocks s ! k) = i
             then (blocks s ! k)\<lparr>b_content := Some \<lparr>c_type = Image, c_data = r\<rparr>\<rparr>
             else blocks s ! k)"
    by (simp add: addImage_onload_def set_content_nth)
  have comm: "blocks (addImage_onload i r (deleteBlock j s))
                = blocks (deleteBlock j (addImage_onload i r s))"
    by (simp add: addImage_onload_def deleteBlock_def set_content_filter)
  from stale late len nth comm show ?thesis by blast
qed

text \<open>
  Witness: block \<open>a\<close> is created, a read for it is started, block \<open>a\<close> is deleted and block
  \<open>b\<close> is created; the read then completes and the state is the one before the completion.
\<close>

theorem addImage_onload_stale_witness:
  "''a'' \<notin> set (ids (blocks (fire (CreateDefaultBlock ''b'') (fire (DeleteBlock ''a'')
        (fire (AddImage ''a'') (fire (CreateDefaultBlock ''a'') initial_state))))))
   \<and> addImage_onload ''a'' (JStr ''data:image/png;base64,AAAA'')
        (fire (CreateDefaultBlock ''b'') (fire (DeleteBlock ''a'')
        (fire (AddImage ''a'') (fire (CreateDefaultBlock ''a'') initial_state))))
     = fire (CreateDefaultBlock ''b'') (fire (DeleteBlock ''a'')
        (fire (AddImage ''a'') (fire (CreateDefaultBlock ''a'') initial_state)))"
  using addImage_onload_stale
    [where i = "''a''" and r = "JStr ''data:image/png;base64,AAAA''"
       and s = "fire (CreateDefaultBlock ''b'') (fire (DeleteBlock ''a'')
        (fire (AddImage ''a'') (fire (CreateDefaultBlock ''a'') initial_state)))"]
  by (simp add: initial_state_def createDefaultBlock_def deleteBlock_def addImage_def ids_def)

subsection \<open>Duplicating a block\<close>





subsection \<open>Setting text\<close>

text \<open>
  C7. Set-text with a cancelled prompt (\<open>null\<close>) or an empty string returns the state it was
  given, in both variants: registry, content of every block, selection and the list of
  alerts are unchanged.  With a non-empty string the registry is mapped position by
  position: a block carrying the identifier gets the text as its whole content, whatever
  it held before, and every other block is unchanged; nothing but the registry changes.
\<close>

theorem addText_cancel_or_replace:
  "(t = None \<or> t = Some [] \<longrightarrow> addText i t s = s \<and> addTextToBlock i t r = r)
   \<and> (\<forall>v. t = Some v \<and> v \<noteq> [] \<longrightarrow>
        addText i t s
          = s\<lparr>blocks := map (\<lambda>b. if b_id b = i
                                 then b\<lparr>b_content := Some \<lparr>c_type = Text, c_data = JStr v\<rparr>\<rparr>
                                 else b) (blocks s)\<rparr>
        \<and> alerts (addText i t s) = alerts s
        \<and> selectedId (addText i t s) = selectedId s
        \<and> (\<forall>k < length (blocks s).
              blocks (addText i t s) ! k
                = (if b_id (blocks s ! k) = i
                   then (blocks s ! k)\<lparr>b_content := Some \<lparr>c_type = Text, c_data = JStr v\<rparr>\<rparr>
                   else blocks s ! k))
        \<and> addTextToBlock i t r
          = r\<lparr>blocks_r := map (\<lambda>b. if b_id b = i
                                 then b\<lparr>b_content := Some \<lparr>c_type = Text, c_data = JStr v\<rparr>\<rparr>
                                 else b) (blocks_r r)\<rparr>
        \<and> (\<forall>k < length (blocks_r r).
              blocks_r (addTextToBlock i t r) ! k
                = (if b_id (blocks_r r ! k) = i
                   then (blocks_r r ! k)\<lparr>b_content := Some \<lparr>c_type = Text, c_data = JStr v\<rparr>\<rparr>
                   else blocks_r r ! k)))"
proof -
  have cancel: "addText i t s = s \<and> addTextToBlock i t r = r" if "t = None \<or> t = Some []"
    using that by (auto simp add: addText_def addTextToBlock_def)
  have full: "addText i (Some v) s
          = s\<lparr>blocks := map (\<lambda>b. if b_id b = i
                                 then b\<lparr>b_content := Some \<lparr>c_type = Text, c_data = JStr v\<rparr>\<rparr>
                                 else b) (blocks s)\<rparr>"
    and lite: "addTextToBlock i (Some v) r
          = r\<lparr>blocks_r := map (\<lambda>b. if b_id b = i
                                 then b\<lparr>b_content := Some \<lparr>c_type = Text, c_data = JStr v\<rparr>\<rparr>
                                 else b) (blocks_r r)\<rparr>"
    if "v \<noteq> []" for v
    using that by (simp_all add: addText_def addTextToBlock_def set_content_def)
  have rest: "\<forall>v. t = Some v \<and> v \<noteq> [] \<longrightarrow>
        addText i t s
          = s\<lparr>blocks := map (\<lambda>b. if b_id b = i
                                 then b\<lparr>b_content := Some \<lparr>c_type = Text, c_data = JStr v\<rparr>\<rparr>
                                 else b) (blocks s)\<rparr>
        \<and> alerts (addText i t s) = alerts s
        \<and> selectedId (addText i t s) = selectedId s
        \<and> (\<forall>k < length (blocks s).
              blocks (addText i t s) ! k
                = (if b_id (blocks s ! k) = i
                   then (blocks s ! k)\<lparr>b_content := Some \<lparr>c_type = Text, c_data = JStr v\<rparr>\<rparr>
                   else blocks s ! k))
        \<and> addTextToBlock i t r
          = r\<lparr>blocks_r := map (\<lambda>b. if b_id b = i
                                 then b\<lparr>b_content := Some \<lparr>c_type = Text, c_data = JStr v\<rparr>\<rparr>
                                 else b) (blocks_r r)\<rparr>
        \<and> (\<forall>k < length (blocks_r r).
              blocks_r (addTextToBlock i t r) ! k
                = (if b_id (blocks_r r ! k) = i
                   then (blocks_r r ! k)\<lparr>b_content := Some \<lparr>c_type = Text, c_data = JStr v\<rparr>\<rparr>
                   else blocks_r r ! k))"
    by (simp add: full lite)
  from cancel rest show ?thesis by blast
qed

text \<open>
  Witness: on a block that holds the icon, a cancelled and an empty prompt change nothing,
  and the text \<open>hi\<close> replaces the icon.
\<close>

theorem addText_cancel_or_replace_witness:
  "addText ''u1'' None (fire (AddIcon ''u1'') (fire (CreateDefaultBlock ''u1'') initial_state))
     = fire (AddIcon ''u1'') (fire (CreateDefaultBlock ''u1'') initial_state)
   \<and> addText ''u1'' (Some []) (fire (AddIcon ''u1'') (fire (CreateDefaultBlock ''u1'') initial_state))
     = fire (AddIcon ''u1'') (fire (CreateDefaultBlock ''u1'') initial_state)
   \<and> blocks (addText ''u1'' (Some ''hi'')
        (fire (AddIcon ''u1'') (fire (CreateDefaultBlock ''u1'') initial_state)))
     = [\<lparr>b_id = ''u1'', b_x = 100, b_y = 100, b_width = 200, b_height = 150,
          b_content = Some \<lparr>c_type = Text, c_data = JStr ''hi''\<rparr>\<rparr>]
   \<and> addTextToBlock ''u1'' None initial_state_r = initial_state_r"
  using addText_cancel_or_replace
    [where t = "None" and i = "''u1''" and r = initial_state_r
       and s = "fire (AddIcon ''u1'') (fire (CreateDefaultBlock ''u1'') initial_state)"]
    addText_cancel_or_replace
    [where t = "Some []" and i = "''u1''" and r = initial_state_r
       and s = "fire (AddIcon ''u1'') (fire (CreateDefaultBlock ''u1'') initial_state)"]
    addText_cancel_or_replace
    [where t = "Some ''hi''" and i = "''u1''" and r = initial_state_r
       and s = "fire (AddIcon ''u1'') (fire (CreateDefaultBlock ''u1'') initial_state)"]
  by (simp add: initial_state_def createDefaultBlock_def addIcon_def set_content_def)

subsection \<open>The preview rectangle\<close>

text \<open>
  C8. While a gesture is in progress (\<open>isSelecting\<close> set, anchor \<open>a\<close> recorded), a pointer-move
  at surface point \<open>p\<close> (the client position minus the container's origin) sets the preview
  to the rectangle whose top-left corner is the component-wise minimum of \<open>a\<close> and \<open>p\<close> and
  whose width and height are the absolute differences of their coordinates, in both
  variants.  The rectangle does not depend on the direction of the drag: pressing at one
  point and moving to another gives the same preview as pressing at the second and moving
  to the first.  A gesture pressed at (150,150), moved to (50,80) and released commits a
  block at (50,80) of width 100 and height 70.
\<close>

theorem handleMouseMove_preview:
  "(isSelecting s \<and> startPoint s = Some a \<longrightarrow>
      selectionPreview (handleMouseMove rect e s)
        = Some \<lparr>b_id = ''temp'',
                b_x = min (p_x a) (p_x (getRelativeCoordinates rect e)),
                b_y = min (p_y a) (p_y (getRelativeCoordinates rect e)),
                b_width = \<bar>p_x (getRelativeCoordinates rect e) - p_x a\<bar>,
                b_height = \<bar>p_y (getRelativeCoordinates rect e) - p_y a\<bar>,
                b_content = None\<rparr>)
   \<and> (isSelecting_r r \<and> startPoint_r r = Some a \<longrightarrow>
      selection (handleMouseMove_r rect e r)
        = Some \<lparr>b_id = ''temp'',
                b_x = min (p_x a) (p_x (getRelativeCoordinates rect e)),
                b_y = min (p_y a) (p_y (getRelativeCoordinates rect e)),
                b_width = \<bar>p_x (getRelativeCoordinates rect e) - p_x a\<bar>,
                b_height = \<bar>p_y (getRelativeCoordinates rect e) - p_y a\<bar>,
                b_content = None\<rparr>)
   \<and> p_x (getRelativeCoordinates rect e) = clientX e - rect_left rect
   \<and> p_y (getRelativeCoordinates rect e) = clientY e - rect_top rect
   \<and> selectionPreview (handleMouseMove rect (pointer_at x2 y2 tg)
          (handleMouseDown rect (pointer_at x1 y1 surface) s))
       = selectionPreview (handleMouseMove rect (pointer_at x1 y1 tg)
          (handleMouseDown rect (pointer_at x2 y2 surface) s))
   \<and> selection (handleMouseMove_r rect (pointer_at x2 y2 tg)
          (handleMouseDown_r rect (pointer_at x1 y1 tg') r))
       = selection (handleMouseMove_r rect (pointer_at x1 y1 tg)
          (handleMouseDown_r rect (pointer_at x2 y2 tg') r))
   \<and> blocks (handleMouseUp u (handleMouseMove origin (pointer_at 50 80 tg)
          (handleMouseDown origin (pointer_at 150 150 surface) s)))
       = blocks s @ [\<lparr>b_id = u, b_x = 50, b_y = 80, b_width = 100, b_height = 70,
                       b_content = None\<rparr>]
   \<and> blocks_r (handleMouseUp_r u (handleMouseMove_r origin (pointer_at 50 80 tg)
          (handleMouseDown_r origin (pointer_at 150 150 tg') r)))
       = blocks_r r @ [\<lparr>b_id = u, b_x = 50, b_y = 80, b_width = 100, b_height = 70,
                         b_content = None\<rparr>]"
proof -
  have full: "isSelecting s \<and> startPoint s = Some a \<longrightarrow>
      selectionPreview (handleMouseMove rect e s)
        = Some \<lparr>b_id = ''temp'',
                b_x = min (p_x a) (p_x (getRelativeCoordinates rect e)),
                b_y = min (p_y a) (p_y (getRelativeCoordinates rect e)),
                b_width = \<bar>p_x (getRelativeCoordinates rect e) - p_x a\<bar>,
                b_height = \<bar>p_y (getRelativeCoordinates rect e) - p_y a\<bar>,
                b_content = None\<rparr>"
    by (simp add: handleMouseMove_def Let_def)
  have lite: "isSelecting_r r \<and> startPoint_r r = Some a \<longrightarrow>
      selection (handleMouseMove_r rect e r)
        = Some \<lparr>b_id = ''temp'',
                b_x = min (p_x a) (p_x (getRelativeCoordinates rect e)),
                b_y = min (p_y a) (p_y (getRelativeCoordinates rect e)),
                b_width = \<bar>p_x (getRelativeCoordinates rect e) - p_x a\<bar>,
                b_height = \<bar>p_y (getRelativeCoordinates rect e) - p_y a\<bar>,
                b_content = None\<rparr>"
    by (simp add: handleMouseMove_r_def Let_def)
  have coords: "p_x (getRelativeCoordinates rect e) = clientX e - rect_left rect"
    "p_y (getRelativeCoordinates rect e) = clientY e - rect_top rect"
    by (simp_all add: getRelativeCoordinates_def)
  have swap: "selectionPreview (handleMouseMove rect (pointer_at x2 y2 tg)
          (handleMouseDown rect (pointer_at x1 y1 surface) s))
       = selectionPreview (handleMouseMove rect (pointer_at x1 y1 tg)
          (handleMouseDown rect (pointer_at x2 y2 surface) s))"
    by (simp add: handleMouseMove_def handleMouseDown_def getRelativeCoordinates_def
        pointer_at_def surface_def Let_def min.commute abs_minus_commute)
  have swap_r: "selection (handleMouseMove_r rect (pointer_at x2 y2 tg)
          (handleMouseDown_r rect (pointer_at x1 y1 tg') r))
       = selection (handleMouseMove_r rect (pointer_at x1 y1 tg)
          (handleMouseDown_r rect (pointer_at x2 y2 tg') r))"
    by (simp add: handleMouseMove_r_def handleMouseDown_r_def getRelativeCoordinates_def
        pointer_at_def Let_def min.commute abs_minus_commute)
  have run: "blocks (handleMouseUp u (handleMouseMove origin (pointer_at 50 80 tg)
          (handleMouseDown origin (pointer_at 150 150 surface) s)))
       = blocks s @ [\<lparr>b_id = u, b_x = 50, b_y = 80, b_width = 100, b_height = 70,
                       b_content = None\<rparr>]"
    by (simp add: handleMouseUp_def handleMouseMove_def handleMouseDown_def
        getRelativeCoordinates_def pointer_at_def surface_def origin_def Let_def)
  have run_r: "blocks_r (handleMouseUp_r u (handleMouseMove_r origin (pointer_at 50 80 tg)
          (handleMouseDown_r origin (pointer_at 150 150 tg') r)))
       = blocks_r r @ [\<lparr>b_id = u, b_x = 50, b_y = 80, b_width = 100, b_height = 70,
                         b_content = None\<rparr>]"
    by (simp add: handleMouseUp_r_def handleMouseMove_r_def handleMouseDown_r_def
        getRelativeCoordinates_def pointer_at_def origin_def Let_def)
  from full lite coords swap swap_r run run_r show ?thesis by blast
qed

text \<open>
  Witness: in the state after a pointer-down at (150,150) on the empty surface of a
  container whose origin is at (10,10) in the viewport, a move to the viewport position
  (60,90) gives the preview at (50,80) of size 100 by 70.
\<close>

theorem handleMouseMove_preview_witness:
  "isSelecting (handleMouseDown \<lparr>rect_left = 10, rect_top = 10\<rparr> (pointer_at 160 160 surface)
       initial_state)
   \<and> startPoint (handleMouseDown \<lparr>rect_left = 10, rect_top = 10\<rparr> (pointer_at 160 160 surface)
       initial_state) = Some \<lparr>p_x = 150, p_y = 150\<rparr>
   \<and> selectionPreview (handleMouseMove \<lparr>rect_left = 10, rect_top = 10\<rparr> (pointer_at 60 90 surface)
       (handleMouseDown \<lparr>rect_left = 10, rect_top = 10\<rparr> (pointer_at 160 160 surface)
         initial_state))
     = Some \<lparr>b_id = ''temp'', b_x = 50, b_y = 80, b_width = 100, b_height = 70,
             b_content = None\<rparr>
   \<and> selection (handleMouseMove_r \<lparr>rect_left = 10, rect_top = 10\<rparr> (pointer_at 60 90 surface)
       (handleMouseDown_r \<lparr>rect_left = 10, rect_top = 10\<rparr> (pointer_at 160 160 surface)
         initial_state_r))
     = Some \<lparr>b_id = ''temp'', b_x = 50, b_y = 80, b_width = 100, b_height = 70,
             b_content = None\<rparr>"
  using handleMouseMove_preview
    [where s = "handleMouseDown \<lparr>rect_left = 10, rect_top = 10\<rparr> (pointer_at 160 160 surface)
                  initial_state"
       and r = "handleMouseDown_r \<lparr>rect_left = 10, rect_top = 10\<rparr> (pointer_at 160 160 surface)
                  initial_state_r"
       and a = "\<lparr>p_x = 150, p_y = 150\<rparr>"
       and rect = "\<lparr>rect_left = 10, rect_top = 10\<rparr>"
       and e = "pointer_at 60 90 surface"]
  by (simp add: handleMouseDown_def handleMouseDown_r_def initial_state_def initial_state_r_def
      pointer_at_def surface_def getRelativeCoordinates_def)

subsection \<open>Content operations on an absent identifier\<close>

text \<open>
  C10. Set-icon, and set-text with a non-empty string, aimed at an identifier that no block
  of the registry carries, return the state they were given, in both variants: the registry
  and everything else are unchanged.
\<close>

theorem content_ops_absent_id:
  "(i \<notin> set (ids (blocks s)) \<longrightarrow>
      addIcon i s = s \<and> blocks (addIcon i s) = blocks s
      \<and> (\<forall>v. v \<noteq> [] \<longrightarrow> addText i (Some v) s = s \<and> blocks (addText i (Some v) s) = blocks s))
   \<and> (i \<notin> set (ids (blocks_r r)) \<longrightarrow>
      addIconToBlock i r = r \<and> blocks_r (addIconToBlock i r) = blocks_r r
      \<and> (\<forall>v. v \<noteq> [] \<longrightarrow> addTextToBlock i (Some v) r = r
                \<and> blocks_r (addTextToBlock i (Some v) r) = blocks_r r))"
  by (simp add: addIcon_def addText_def addIconToBlock_def addTextToBlock_def set_content_absent)

text \<open>
  Witness: with block \<open>u1\<close> alone in the registry, set-icon and set-text for \<open>gone\<close>
  change nothing.
\<close>

theorem content_ops_absent_id_witness:
  "''gone'' \<notin> set (ids (blocks (fire (CreateDefaultBlock ''u1'') initial_state)))
   \<and> addIcon ''gone'' (fire (CreateDefaultBlock ''u1'') initial_state)
       = fire (CreateDefaultBlock ''u1'') initial_state
   \<and> addText ''gone'' (Some ''hi'') (fire (CreateDefaultBlock ''u1'') initial_state)
       = fire (CreateDefaultBlock ''u1'') initial_state
   \<and> ''gone'' \<notin> set (ids (blocks_r (fire_r (MouseUp_r ''u1'')
        (fire_r (MouseMove_r origin (pointer_at 21 21 surface))
        (fire_r (MouseDown_r origin (pointer_at 0 0 surface)) initial_state_r)))))
   \<and> addIconToBlock ''gone'' (fire_r (MouseUp_r ''u1'')
        (fire_r (MouseMove_r origin (pointer_at 21 21 surface))
        (fire_r (MouseDown_r origin (pointer_at 0 0 surface)) initial_state_r)))
       = fire_r (MouseUp_r ''u1'')
        (fire_r (MouseMove_r origin (pointer_at 21 21 surface))
        (fire_r (MouseDown_r origin (pointer_at 0 0 surface)) initial_state_r))
   \<and> addTextToBlock ''gone'' (Some ''hi'') (fire_r (MouseUp_r ''u1'')
        (fire_r (MouseMove_r origin (pointer_at 21 21 surface))
        (fire_r (MouseDown_r origin (pointer_at 0 0 surface)) initial_state_r)))
       = fire_r (MouseUp_r ''u1'')
        (fire_r (MouseMove_r origin (pointer_at 21 21 surface))
        (fire_r (MouseDown_r origin (pointer_at 0 0 surface)) initial_state_r))"
  using content_ops_absent_id
    [where i = "''gone''" and s = "fire (CreateDefaultBlock ''u1'') initial_state"
       and r = "fire_r (MouseUp_r ''u1'')
        (fire_r (MouseMove_r origin (pointer_at 21 21 surface))
        (fire_r (MouseDown_r origin (pointer_at 0 0 surface)) initial_state_r))"]
  by (simp add: initial_state_def createDefaultBlock_def ids_def initial_state_r_def
      handleMouseDown_r_def handleMouseMove_r_def handleMouseUp_r_def origin_def surface_def
      pointer_at_def getRelativeCoordinates_def)

subsection \<open>The selection invariant\<close>

lemma filter_unique_id_length:
  "distinct (map f xs) \<Longrightarrow> length (filter (\<lambda>b. f b = a) xs) \<le> 1"
proof (induction xs)
  case Nil
  then show ?case by simp
next
  case (Cons x xs)
  show ?case
  proof (cases "f x = a")
    case True
    with Cons.prems have "a \<notin> f ` set xs" by auto
    then have "filter (\<lambda>b. f b = a) xs = []"
      by (auto simp add: filter_empty_conv)
    with True show ?thesis by simp
  next
    case False
    with Cons show ?thesis by simp
  qed
qed

lemma at_most_one_selected:
  "ids_distinct bs \<Longrightarrow> length (selected_blocks sel bs) \<le> 1"
proof (cases sel)
  case None
  then show ?thesis by (simp add: selected_blocks_def)
next
  case (Some i)
  assume "ids_distinct bs"
  then have "length (filter (\<lambda>b. b_id b = i) bs) \<le> 1"
    using filter_unique_id_length [of b_id bs i] by (simp add: ids_distinct_def ids_def)
  with Some show ?thesis by (simp add: selected_blocks_def)
qed

lemma selection_ok_iff:
  "ids_distinct bs \<Longrightarrow>
     selection_ok sel bs = (case sel of None \<Rightarrow> True | Some i \<Rightarrow> i \<in> set (ids bs))"
  using at_most_one_selected [of bs sel] by (simp add: selection_ok_def)

lemma ids_map_keep:
  "(\<And>b. b_id (f b) = b_id b) \<Longrightarrow> ids (map f bs) = ids bs"
  by (simp add: ids_def)

lemma ids_append: "ids (bs @ [b]) = ids bs @ [b_id b]"
  by (simp add: ids_def)

lemma ids_filter: "ids (filter (\<lambda>b. b_id b \<noteq> i) bs) = filter (\<lambda>j. j \<noteq> i) (ids bs)"
  by (simp add: ids_def filter_map o_def)

text \<open>The identifiers and the selection after each event of the full variant.\<close>

lemma fire_ids_selection:
  "(ids (blocks (fire e s)) = ids (blocks s)
      \<and> (selectedId (fire e s) = selectedId s \<or> selectedId (fire e s) = None
          \<or> (\<exists>i. e = Click i \<and> selectedId (fire e s) = Some i)))
   \<or> (\<exists>u. (e = CreateDefaultBlock u \<or> (\<exists>b. e = DuplicateBlock u b) \<or> e = MouseUp u)
          \<and> ids (blocks (fire e s)) = ids (blocks s) @ [u] \<and> selectedId (fire e s) = Some u)
   \<or> (\<exists>i. e = DeleteBlock i \<and> ids (blocks (fire e s)) = filter (\<lambda>j. j \<noteq> i) (ids (blocks s))
          \<and> selectedId (fire e s) = None)"
proof (cases e)
  case (CreateDefaultBlock u)
  then show ?thesis by (simp add: createDefaultBlock_def ids_append)
next
  case (DeleteBlock i)
  then show ?thesis by (simp add: deleteBlock_def ids_filter)
next
  case (DuplicateBlock u b)
  then show ?thesis by (simp add: duplicateBlock_def ids_append)
next
  case (AddIcon i)
  then show ?thesis by (simp add: addIcon_def ids_set_content)
next
  case (AddText i t)
  then show ?thesis by (simp add: addText_def ids_set_content split: option.split)
next
  case (AddImage i)
  then show ?thesis by (simp add: addImage_def)
next
  case (ImageLoaded i r)
  then show ?thesis by (simp add: addImage_onload_def ids_set_content)
next
  case (TableResponse sel r)
  then show ?thesis by (simp add: sendTablePrompt_resume_def ids_map_keep split: sum.split)
next
  case (MouseDown rect ev)
  then show ?thesis by (simp add: handleMouseDown_def)
next
  case (MouseMove rect ev)
  then show ?thesis by (simp add: handleMouseMove_def Let_def split: option.split)
next
  case (MouseUp u)
  then show ?thesis by (simp add: handleMouseUp_def Let_def ids_append split: option.split)
next
  case (DragStop i d)
  then show ?thesis by (simp add: onDragStop_def ids_map_keep)
next
  case (ResizeStop i w h pos)
  then show ?thesis by (simp add: onResizeStop_def ids_map_keep)
next
  case (Click i)
  then show ?thesis by (simp add: onClick_def)
next
  case (SetShowModal v)
  then show ?thesis by simp
next
  case (SetPromptText v)
  then show ?thesis by simp
qed

lemma fire_preserves:
  assumes d: "distinct (ids (blocks s))" and m: "sel_in (selectedId s) (blocks s)"
    and ok: "env_ok e s"
  shows "distinct (ids (blocks (fire e s))) \<and> sel_in (selectedId (fire e s)) (blocks (fire e s))"
  using fire_ids_selection [of e s]
proof (elim disjE conjE exE)
  assume "ids (blocks (fire e s)) = ids (blocks s)" "selectedId (fire e s) = selectedId s"
  with d m show ?thesis by (auto simp add: sel_in_def split: option.splits)
next
  assume "ids (blocks (fire e s)) = ids (blocks s)" "selectedId (fire e s) = None"
  with d show ?thesis by (auto simp add: sel_in_def split: option.splits)
next
  fix i assume "ids (blocks (fire e s)) = ids (blocks s)" "e = Click i"
    "selectedId (fire e s) = Some i"
  with d ok show ?thesis by (auto simp add: sel_in_def split: option.splits)
next
  fix u assume "e = CreateDefaultBlock u"
    "ids (blocks (fire e s)) = ids (blocks s) @ [u]" "selectedId (fire e s) = Some u"
  with d ok show ?thesis by (auto simp add: sel_in_def split: option.splits)
next
  fix u b assume "e = DuplicateBlock u b"
    "ids (blocks (fire e s)) = ids (blocks s) @ [u]" "selectedId (fire e s) = Some u"
  with d ok show ?thesis by (auto simp add: sel_in_def split: option.splits)
next
  fix u assume "e = MouseUp u"
    "ids (blocks (fire e s)) = ids (blocks s) @ [u]" "selectedId (fire e s) = Some u"
  with d ok show ?thesis by (auto simp add: sel_in_def split: option.splits)
next
  fix i assume "ids (blocks (fire e s)) = filter (\<lambda>j. j \<noteq> i) (ids (blocks s))"
    "selectedId (fire e s) = None"
  with d show ?thesis by (auto simp add: sel_in_def split: option.splits)
qed

text \<open>The identifiers and the selection after each event of the reduced variant.\<close>

lemma fire_r_ids_selection:
  "(ids (blocks_r (fire_r e r)) = ids (blocks_r r)
      \<and> (selectedBlockId (fire_r e r) = selectedBlockId r \<or> selectedBlockId (fire_r e r) = None
          \<or> (\<exists>i. e = Click_r i \<and> selectedBlockId (fire_r e r) = Some i)))
   \<or> (\<exists>u. e = MouseUp_r u \<and> ids (blocks_r (fire_r e r)) = ids (blocks_r r) @ [u]
          \<and> selectedBlockId (fire_r e r) = selectedBlockId r)"
proof (cases e)
  case (MouseDown_r rect ev)
  then show ?thesis by (simp add: handleMouseDown_r_def)
next
  case (MouseMove_r rect ev)
  then show ?thesis by (simp add: handleMouseMove_r_def Let_def split: option.split)
next
  case (MouseUp_r u)
  then show ?thesis by (simp add: handleMouseUp_r_def Let_def ids_append split: option.split)
next
  case (Click_r i)
  then show ?thesis by (simp add: onClick_r_def)
next
  case (AddIconToBlock i)
  then show ?thesis by (simp add: addIconToBlock_def ids_set_content)
next
  case (AddTextToBlock i t)
  then show ?thesis by (simp add: addTextToBlock_def ids_set_content split: option.split)
qed

lemma fire_r_preserves:
  assumes d: "distinct (ids (blocks_r r))" and m: "sel_in (selectedBlockId r) (blocks_r r)"
    and ok: "env_ok_r e r"
  shows "distinct (ids (blocks_r (fire_r e r)))
         \<and> sel_in (selectedBlockId (fire_r e r)) (blocks_r (fire_r e r))"
  using fire_r_ids_selection [of e r]
proof (elim disjE conjE exE)
  assume "ids (blocks_r (fire_r e r)) = ids (blocks_r r)"
    "selectedBlockId (fire_r e r) = selectedBlockId r"
  with d m show ?thesis by (auto simp add: sel_in_def split: option.splits)
next
  assume "ids (blocks_r (fire_r e r)) = ids (blocks_r r)" "selectedBlockId (fire_r e r) = None"
  with d show ?thesis by (auto simp add: sel_in_def split: option.splits)
next
  fix i assume "ids (blocks_r (fire_r e r)) = ids (blocks_r r)" "e = Click_r i"
    "selectedBlockId (fire_r e r) = Some i"
  with d ok show ?thesis by (auto simp add: sel_in_def split: option.splits)
next
  fix u assume "e = MouseUp_r u" "ids (blocks_r (fire_r e r)) = ids (blocks_r r) @ [u]"
    "selectedBlockId (fire_r e r) = selectedBlockId r"
  with d m ok show ?thesis by (auto simp add: sel_in_def split: option.splits)
qed

lemma reachable_inv:
  "reachable s \<Longrightarrow> distinct (ids (blocks s)) \<and> sel_in (selectedId s) (blocks s)"
proof (induction rule: reachable.induct)
  case reachable_init
  show ?case by (simp add: initial_state_def ids_def sel_in_def)
next
  case (reachable_step s e)
  then show ?case using fire_preserves [of s e] by blast
qed

lemma reachable_r_inv:
  "reachable_r r \<Longrightarrow> distinct (ids (blocks_r r)) \<and> sel_in (selectedBlockId r) (blocks_r r)"
proof (induction rule: reachable_r.induct)
  case reachable_r_init
  show ?case by (simp add: initial_state_r_def ids_def sel_in_def)
next
  case (reachable_r_step r e)
  then show ?case using fire_r_preserves [of r e] by blast
qed

lemma inv_iff:
  "(ids_distinct bs \<and> selection_ok sel bs) = (distinct (ids bs) \<and> sel_in sel bs)"
  using selection_ok_iff [of bs sel] by (auto simp add: ids_distinct_def sel_in_def)

text \<open>
  C9. With unique identifiers, the selection invariant (the selected identifier is null or
  that of a block of the registry, and at most one block of the registry is selected) holds
  in the initial state and after every event that starts in a state where it holds:
  creating the default block, committing or discarding a draw gesture, pointer-down and
  pointer-move, selecting a rendered block by click, deleting, duplicating, moving and
  resizing, every content assignment, and both asynchronous completions with whatever
  identifier they captured; hence it holds in every reachable state.  The environment is
  assumed to return from \<open>uuidv4()\<close> an identifier not in the registry.  The same holds of
  the reduced variant.
\<close>

theorem selection_invariant:
  "ids_distinct (blocks initial_state)
   \<and> selection_ok (selectedId initial_state) (blocks initial_state)
   \<and> (\<forall>e s. ids_distinct (blocks s) \<and> selection_ok (selectedId s) (blocks s) \<and> env_ok e s \<longrightarrow>
          ids_distinct (blocks (fire e s))
          \<and> selection_ok (selectedId (fire e s)) (blocks (fire e s)))
   \<and> (\<forall>s. reachable s \<longrightarrow> ids_distinct (blocks s) \<and> selection_ok (selectedId s) (blocks s))
   \<and> ids_distinct (blocks_r initial_state_r)
   \<and> selection_ok (selectedBlockId initial_state_r) (blocks_r initial_state_r)
   \<and> (\<forall>e r. ids_distinct (blocks_r r) \<and> selection_ok (selectedBlockId r) (blocks_r r)
            \<and> env_ok_r e r \<longrightarrow>
          ids_distinct (blocks_r (fire_r e r))
          \<and> selection_ok (selectedBlockId (fire_r e r)) (blocks_r (fire_r e r)))
   \<and> (\<forall>r. reachable_r r \<longrightarrow>
          ids_distinct (blocks_r r) \<and> selection_ok (selectedBlockId r) (blocks_r r))"
proof -
  have i: "ids_distinct (blocks initial_state)
           \<and> selection_ok (selectedId initial_state) (blocks initial_state)"
    unfolding inv_iff by (simp add: initial_state_def ids_def sel_in_def)
  have p: "ids_distinct (blocks (fire e s))
           \<and> selection_ok (selectedId (fire e s)) (blocks (fire e s))"
    if "ids_distinct (blocks s)" "selection_ok (selectedId s) (blocks s)" "env_ok e s" for e s
    using that fire_preserves [of s e] inv_iff [of "blocks s" "selectedId s"]
      inv_iff [of "blocks (fire e s)" "selectedId (fire e s)"]
    by blast
  have r: "\<forall>s. reachable s \<longrightarrow> ids_distinct (blocks s) \<and> selection_ok (selectedId s) (blocks s)"
    unfolding inv_iff using reachable_inv by blast
  have i': "ids_distinct (blocks_r initial_state_r)
           \<and> selection_ok (selectedBlockId initial_state_r) (blocks_r initial_state_r)"
    unfolding inv_iff by (simp add: initial_state_r_def ids_def sel_in_def)
  have p': "ids_distinct (blocks_r (fire_r e r))
           \<and> selection_ok (selectedBlockId (fire_r e r)) (blocks_r (fire_r e r))"
    if "ids_distinct (blocks_r r)" "selection_ok (selectedBlockId r) (blocks_r r)"
      "env_ok_r e r" for e r
    using that fire_r_preserves [of r e] inv_iff [of "blocks_r r" "selectedBlockId r"]
      inv_iff [of "blocks_r (fire_r e r)" "selectedBlockId (fire_r e r)"]
    by blast
  have r': "\<forall>r. reachable_r r \<longrightarrow>
          ids_distinct (blocks_r r) \<and> selection_ok (selectedBlockId r) (blocks_r r)"
    unfolding inv_iff using reachable_r_inv by blast
  from i p r i' p' r' show ?thesis by blast
qed

text \<open>
  Witness: full variant, two default blocks are created and the first is selected by click;
  reduced variant, a block is drawn and selected by click.  Both states are reachable and
  satisfy the invariant.
\<close>

theorem selection_invariant_witness:
  "reachable (fire (Click ''a'') (fire (CreateDefaultBlock ''b'')
       (fire (CreateDefaultBlock ''a'') initial_state)))
   \<and> selectedId (fire (Click ''a'') (fire (CreateDefaultBlock ''b'')
       (fire (CreateDefaultBlock ''a'') initial_state))) = Some ''a''
   \<and> selection_ok
       (selectedId (fire (Click ''a'') (fire (CreateDefaultBlock ''b'')
          (fire (CreateDefaultBlock ''a'') initial_state))))
       (blocks (fire (Click ''a'') (fire (CreateDefaultBlock ''b'')
          (fire (CreateDefaultBlock ''a'') initial_state))))
   \<and> reachable_r (fire_r (Click_r ''u1'') (fire_r (MouseUp_r ''u1'')
       (fire_r (MouseMove_r origin (pointer_at 21 21 surface))
       (fire_r (MouseDown_r origin (pointer_at 0 0 surface)) initial_state_r))))
   \<and> selectedBlockId (fire_r (Click_r ''u1'') (fire_r (MouseUp_r ''u1'')
       (fire_r (MouseMove_r origin (pointer_at 21 21 surface))
       (fire_r (MouseDown_r origin (pointer_at 0 0 surface)) initial_state_r)))) = Some ''u1''
   \<and> selection_ok
       (selectedBlockId (fire_r (Click_r ''u1'') (fire_r (MouseUp_r ''u1'')
          (fire_r (MouseMove_r origin (pointer_at 21 21 surface))
          (fire_r (MouseDown_r origin (pointer_at 0 0 surface)) initial_state_r)))))
       (blocks_r (fire_r (Click_r ''u1'') (fire_r (MouseUp_r ''u1'')
          (fire_r (MouseMove_r origin (pointer_at 21 21 surface))
          (fire_r (MouseDown_r origin (pointer_at 0 0 surface)) initial_state_r)))))"
proof -
  let ?s1 = "fire (CreateDefaultBlock ''a'') initial_state"
  let ?s2 = "fire (CreateDefaultBlock ''b'') ?s1"
  let ?s3 = "fire (Click ''a'') ?s2"
  have e1: "env_ok (CreateDefaultBlock ''a'') initial_state"
    by (simp add: initial_state_def ids_def)
  have e2: "env_ok (CreateDefaultBlock ''b'') ?s1"
    by (simp add: initial_state_def ids_def createDefaultBlock_def)
  have e3: "env_ok (Click ''a'') ?s2"
    by (simp add: initial_state_def ids_def createDefaultBlock_def)
  have r3: "reachable ?s3"
    by (rule reachable_step [OF reachable_step [OF reachable_step [OF reachable_init e1] e2] e3])
  have sel3: "selectedId ?s3 = Some ''a''"
    by (simp add: onClick_def)
  let ?r1 = "fire_r (MouseDown_r origin (pointer_at 0 0 surface)) initial_state_r"
  let ?r2 = "fire_r (MouseMove_r origin (pointer_at 21 21 surface)) ?r1"
  let ?r3 = "fire_r (MouseUp_r ''u1'') ?r2"
  let ?r4 = "fire_r (Click_r ''u1'') ?r3"
  have f1: "env_ok_r (MouseDown_r origin (pointer_at 0 0 surface)) initial_state_r"
    and f2: "env_ok_r (MouseMove_r origin (pointer_at 21 21 surface)) ?r1"
    by simp_all
  have f3: "env_ok_r (MouseUp_r ''u1'') ?r2"
    by (simp add: initial_state_r_def ids_def handleMouseDown_r_def handleMouseMove_r_def
        Let_def split: option.split)
  have f4: "env_ok_r (Click_r ''u1'') ?r3"
    by (simp add: initial_state_r_def ids_def handleMouseDown_r_def handleMouseMove_r_def
        handleMouseUp_r_def origin_def surface_def pointer_at_def getRelativeCoordinates_def)
  have r4: "reachable_r ?r4"
    by (rule reachable_r_step [OF reachable_r_step [OF reachable_r_step
          [OF reachable_r_step [OF reachable_r_init f1] f2] f3] f4])
  have sel4: "selectedBlockId ?r4 = Some ''u1''"
    by (simp add: onClick_r_def)
  from selection_invariant r3 r4 sel3 sel4 show ?thesis by blast
qed

end
